theory Spec2Isabelle
  imports Main
begin

section \<open>Data model of the upload/process controller (App.tsx)\<close>

text \<open>
  A browser \<^verbatim>\<open>File\<close>: the code reads its \<^verbatim>\<open>name\<close> (for display) and its declared
  MIME \<^verbatim>\<open>type\<close>. A File object is always truthy in JavaScript.
\<close>

record File =
  name :: string
  type :: string

text \<open>A slide as the preview renders it: \<^verbatim>\<open>slide.title\<close> and \<^verbatim>\<open>slide.content\<close>.\<close>

record slide =
  title :: string
  content :: "string list"

text \<open>
  The six \<^verbatim>\<open>useState\<close> variables of \<^verbatim>\<open>App\<close> (lines 15-20), \<^verbatim>\<open>null\<close> as \<open>None\<close>.
\<close>

record state =
  "file" :: "File option"
  uploading :: bool
  processing :: bool
  error :: "string option"
  presentationId :: "string option"
  slides :: "slide list"

definition initialState :: state where
  "initialState =
     \<lparr>file = None, uploading = False, processing = False, error = None,
      presentationId = None, slides = []\<rparr>"

subsection \<open>The network\<close>

text \<open>
  A value thrown inside the \<^verbatim>\<open>try\<close> block: an instance of \<^verbatim>\<open>Error\<close> with its
  message, or any other value.
\<close>

datatype thrown = ErrorInstance (message: string) | NonError

text \<open>
  The request bodies the code builds: a \<^verbatim>\<open>FormData\<close> with its appended fields, or the
  text \<^verbatim>\<open>JSON.stringify\<close> makes of an object, kept as the object's fields.
\<close>

datatype body = FormData "(string \<times> File) list" | JSON_stringify "(string \<times> string) list"

record request =
  url :: string
  "method" :: string
  headers :: "(string \<times> string) list"
  body :: body

text \<open>
  The parsed body of a response. The source types it \<^verbatim>\<open>any\<close>; its shape is the one
  of the HTTP interface: \<^verbatim>\<open>{ filename: string }\<close> for the upload and
  \<^verbatim>\<open>{ filename: string, slides: [...] }\<close> for the processing step. The code reads
  \<^verbatim>\<open>.filename\<close> of both and \<^verbatim>\<open>.slides\<close> of the second. Field \<open>data_slides\<close> is
  \<^verbatim>\<open>slides\<close> of the source, renamed because \<open>slides\<close> is the state variable.
\<close>

record data =
  filename :: string
  data_slides :: "slide list"

text \<open>
  A response: \<^verbatim>\<open>ok\<close>, \<^verbatim>\<open>statusText\<close>, and what awaiting \<^verbatim>\<open>json()\<close> and reading
  the body's fields gives: the parsed body, or a thrown value when the body cannot be
  read (\<^verbatim>\<open>json()\<close> rejects with a \<^verbatim>\<open>SyntaxError\<close>, or the body is \<^verbatim>\<open>null\<close> and
  reading \<^verbatim>\<open>.filename\<close> throws a \<^verbatim>\<open>TypeError\<close>). The code makes no call between
  \<^verbatim>\<open>json()\<close> and the first read of a field, so both throw at the same point.
\<close>

record response =
  ok :: bool
  statusText :: string
  json :: "thrown + data"

text \<open>
  \<^verbatim>\<open>fetch\<close> as the controller sees it: awaiting it either throws (network unreachable)
  or gives a response.
\<close>

type_synonym fetch = "request \<Rightarrow> thrown + response"

subsection \<open>What a handler does\<close>

text \<open>
  A handler reads the state variables of the render it was created in and makes a
  sequence of calls: state setters, \<^verbatim>\<open>fetch\<close> and \<^verbatim>\<open>window.open\<close>. The model of a
  handler is the list of these calls in order; the state after the handler is the
  state setters applied in that order.
\<close>

datatype action =
    SetFile File
  | SetUploading bool
  | SetProcessing bool
  | SetError "string option"
  | SetPresentationId string
  | SetSlides "slide list"
  | Fetch request
  | WindowOpen string string

fun perform :: "action \<Rightarrow> state \<Rightarrow> state" where
  "perform (SetFile f) s = s\<lparr>file := Some f\<rparr>"
| "perform (SetUploading b) s = s\<lparr>uploading := b\<rparr>"
| "perform (SetProcessing b) s = s\<lparr>processing := b\<rparr>"
| "perform (SetError e) s = s\<lparr>error := e\<rparr>"
| "perform (SetPresentationId p) s = s\<lparr>presentationId := Some p\<rparr>"
| "perform (SetSlides sl) s = s\<lparr>slides := sl\<rparr>"
| "perform (Fetch r) s = s"
| "perform (WindowOpen u t) s = s"

fun run :: "state \<Rightarrow> action list \<Rightarrow> state" where
  "run s [] = s"
| "run s (a # as) = run (perform a s) as"

text \<open>Every state the session passes through while the calls are made, in order.\<close>

fun states :: "state \<Rightarrow> action list \<Rightarrow> state list" where
  "states s [] = [s]"
| "states s (a # as) = s # states (perform a s) as"

fun is_Fetch :: "action \<Rightarrow> bool" where
  "is_Fetch (Fetch r) = True"
| "is_Fetch _ = False"

fun is_WindowOpen :: "action \<Rightarrow> bool" where
  "is_WindowOpen (WindowOpen u t) = True"
| "is_WindowOpen _ = False"

fun is_SetPresentationId :: "action \<Rightarrow> bool" where
  "is_SetPresentationId (SetPresentationId p) = True"
| "is_SetPresentationId _ = False"

fun is_SetSlides :: "action \<Rightarrow> bool" where
  "is_SetSlides (SetSlides sl) = True"
| "is_SetSlides _ = False"

section \<open>The handlers\<close>

text \<open>
  Line 12: \<^verbatim>\<open>import.meta.env.VITE_API_URL || 'http://localhost:8000'\<close>. The setting is
  a parameter; an unset or empty setting is falsy and gives the default.
\<close>

definition API_URL :: "string option \<Rightarrow> string" where
  "API_URL env =
     (case env of
        None \<Rightarrow> ''http://localhost:8000''
      | Some u \<Rightarrow> if u = [] then ''http://localhost:8000'' else u)"

text \<open>
  Lines 22-32. The argument is \<^verbatim>\<open>e.target.files\<close>: \<^verbatim>\<open>null\<close> or a list of files.
\<close>

definition handleFileChange :: "File list option \<Rightarrow> action list" where
  "handleFileChange files =
     (case files of
        None \<Rightarrow> []
      | Some [] \<Rightarrow> []
      | Some (selectedFile # _) \<Rightarrow>
          if type selectedFile \<noteq> ''application/pdf''
          then [SetError (Some ''Please select a PDF file'')]
          else [SetFile selectedFile, SetError None])"

text \<open>Lines 45-52 and 65-71: the two requests.\<close>

definition uploadRequest :: "string option \<Rightarrow> File \<Rightarrow> request" where
  "uploadRequest env f =
     \<lparr>url = API_URL env @ ''/upload-pdf/'', method = ''POST'', headers = [],
      body = FormData [(''file'', f)]\<rparr>"

definition processRequest :: "string option \<Rightarrow> string \<Rightarrow> request" where
  "processRequest env fileId =
     \<lparr>url = API_URL env @ ''/process-pdf/'', method = ''POST'',
      headers = [(''Content-Type'', ''application/json'')],
      body = JSON_stringify [(''filename'', fileId)]\<rparr>"

text \<open>
  Lines 43-80, the \<^verbatim>\<open>try\<close> block: the calls it makes, and the value it throws if it
  does not run to its end.
\<close>

definition tryBlock :: "string option \<Rightarrow> fetch \<Rightarrow> File \<Rightarrow> action list \<times> thrown option" where
  "tryBlock env fetch f =
     (let upload = uploadRequest env f in
      case fetch upload of
        Inl err \<Rightarrow> ([Fetch upload], Some err)
      | Inr uploadResponse \<Rightarrow>
          if \<not> ok uploadResponse
          then ([Fetch upload],
                Some (ErrorInstance (''Upload failed: '' @ statusText uploadResponse)))
          else
            (case json uploadResponse of
               Inl err \<Rightarrow> ([Fetch upload], Some err)
             | Inr uploadData \<Rightarrow>
                 (let fileId = filename uploadData;
                      started = [Fetch upload, SetUploading False, SetProcessing True,
                                 Fetch (processRequest env fileId)]
                  in case fetch (processRequest env fileId) of
                       Inl err \<Rightarrow> (started, Some err)
                     | Inr processResponse \<Rightarrow>
                         if \<not> ok processResponse
                         then (started,
                               Some (ErrorInstance
                                 (''Processing failed: '' @ statusText processResponse)))
                         else
                           (case json processResponse of
                              Inl err \<Rightarrow> (started, Some err)
                            | Inr processData \<Rightarrow>
                                (started @
                                   [SetPresentationId (filename processData),
                                    SetSlides (data_slides processData),
                                    SetProcessing False],
                                 None)))))"

text \<open>Lines 81-85, the \<^verbatim>\<open>catch\<close> block.\<close>

definition catchBlock :: "thrown \<Rightarrow> action list" where
  "catchBlock err =
     [SetError (Some (case err of ErrorInstance m \<Rightarrow> m
                               | NonError \<Rightarrow> ''An unknown error occurred'')),
      SetUploading False,
      SetProcessing False]"

text \<open>Lines 34-86.\<close>

definition handleUpload :: "string option \<Rightarrow> fetch \<Rightarrow> state \<Rightarrow> action list" where
  "handleUpload env fetch s =
     (case file s of
        None \<Rightarrow> [SetError (Some ''Please select a file first'')]
      | Some f \<Rightarrow>
          [SetUploading True, SetError None] @
          (case tryBlock env fetch f of
             (calls, None) \<Rightarrow> calls
           | (calls, Some err) \<Rightarrow> calls @ catchBlock err))"

text \<open>
  Lines 88-92. \<^verbatim>\<open>if (presentationId)\<close> is false for \<^verbatim>\<open>null\<close> and for the empty
  string.
\<close>

definition handleDownload :: "string option \<Rightarrow> state \<Rightarrow> action list" where
  "handleDownload env s =
     (case presentationId s of
        None \<Rightarrow> []
      | Some pid \<Rightarrow>
          if pid = [] then []
          else [WindowOpen (API_URL env @ ''/download/'' @ pid) ''_blank''])"

section \<open>Session states and operation sequences\<close>

text \<open>
  The source has no variable for the session state: it keeps the two flags, the error
  text and the presentation identifier. The five session states of the specification
  are read off these variables as follows. A request in flight is \<open>uploading\<close> or
  \<open>processing\<close> by its flag; with no request in flight the session is \<open>errored\<close> when an
  error message is held, \<open>ready\<close> when a presentation identifier is held and no error
  message, and \<open>idle\<close> otherwise.
\<close>

definition spec_uploading :: "state \<Rightarrow> bool" where
  "spec_uploading s = uploading s"

definition spec_processing :: "state \<Rightarrow> bool" where
  "spec_processing s = processing s"

definition spec_errored :: "state \<Rightarrow> bool" where
  "spec_errored s = (\<not> uploading s \<and> \<not> processing s \<and> error s \<noteq> None)"

definition spec_ready :: "state \<Rightarrow> bool" where
  "spec_ready s =
     (\<not> uploading s \<and> \<not> processing s \<and> error s = None \<and> presentationId s \<noteq> None)"

definition spec_idle :: "state \<Rightarrow> bool" where
  "spec_idle s =
     (\<not> uploading s \<and> \<not> processing s \<and> error s = None \<and> presentationId s = None)"

text \<open>How many of the five session states the session is in.\<close>

definition session_states_held :: "state \<Rightarrow> nat" where
  "session_states_held s =
     length (filter (\<lambda>in_state. in_state s)
       [spec_idle, spec_uploading, spec_processing, spec_ready, spec_errored])"

text \<open>
  The states between operations: the initial render, and the state after a whole
  \<^verbatim>\<open>handleFileChange\<close>, \<^verbatim>\<open>handleUpload\<close> (with any behaviour of the network) or
  \<^verbatim>\<open>handleDownload\<close> from such a state.
\<close>

inductive settled :: "string option \<Rightarrow> state \<Rightarrow> bool" for env :: "string option" where
  initial: "settled env initialState"
| after_selectFile: "settled env s \<Longrightarrow> settled env (run s (handleFileChange files))"
| after_submit: "settled env s \<Longrightarrow> settled env (run s (handleUpload env fetch s))"
| after_download: "settled env s \<Longrightarrow> settled env (run s (handleDownload env s))"

text \<open>
  Every state the session passes through: the states between operations and the
  states inside each operation, after each of its setter calls.
\<close>

inductive visited :: "string option \<Rightarrow> state \<Rightarrow> bool" for env :: "string option" where
  during_selectFile:
    "settled env s \<Longrightarrow> s' \<in> set (states s (handleFileChange files)) \<Longrightarrow> visited env s'"
| during_submit:
    "settled env s \<Longrightarrow> s' \<in> set (states s (handleUpload env fetch s)) \<Longrightarrow> visited env s'"
| during_download:
    "settled env s \<Longrightarrow> s' \<in> set (states s (handleDownload env s)) \<Longrightarrow> visited env s'"

subsection \<open>File selections while a submission awaits\<close>

text \<open>
  \<^verbatim>\<open>handleUpload\<close> is \<^verbatim>\<open>async\<close>: it suspends at \<^verbatim>\<open>await fetch(...)\<close> (lines 49, 65) and
  at \<^verbatim>\<open>await ....json()\<close> (lines 58, 77), and it makes no call between a \<^verbatim>\<open>fetch\<close> and
  the \<^verbatim>\<open>json()\<close> that follows it. While it is suspended the file input is still
  enabled (lines 110-116; only the submit button is disabled, line 134), so change
  events can be handled then; their setter calls fall between the \<^verbatim>\<open>fetch\<close> and the
  next call of \<^verbatim>\<open>handleUpload\<close>.

  \<open>run_changes\<close> handles a list of change events one after another.
  \<open>run_interleaved s calls during\<close> makes the calls of a handler in order and, after
  each \<^verbatim>\<open>fetch\<close>, handles the change events that arrive while that request is awaited:
  the first list of \<open>during\<close> after the first \<^verbatim>\<open>fetch\<close>, the second after the second.
\<close>

fun run_changes :: "state \<Rightarrow> File list option list \<Rightarrow> state" where
  "run_changes s [] = s"
| "run_changes s (files # rest) = run_changes (run s (handleFileChange files)) rest"

fun run_interleaved :: "state \<Rightarrow> action list \<Rightarrow> File list option list list \<Rightarrow> state" where
  "run_interleaved s [] during = s"
| "run_interleaved s (a # as) during =
     (if is_Fetch a
      then (case during of
              [] \<Rightarrow> run_interleaved (perform a s) as []
            | changes # later \<Rightarrow> run_interleaved (run_changes (perform a s) changes) as later)
      else run_interleaved (perform a s) as during)"

section \<open>Example sessions\<close>

text \<open>The file \<^verbatim>\<open>report.pdf\<close> and a file that is not a PDF.\<close>

definition report_pdf :: File where
  "report_pdf = \<lparr>name = ''report.pdf'', type = ''application/pdf''\<rparr>"

definition notes_txt :: File where
  "notes_txt = \<lparr>name = ''notes.txt'', type = ''text/plain''\<rparr>"

definition intro_slides :: "slide list" where
  "intro_slides = [\<lparr>title = ''Intro'', content = [''point A'', ''point B'']\<rparr>]"

text \<open>
  A mock network: the upload answers \<^verbatim>\<open>{filename: "abc123"}\<close>, the processing step
  answers \<^verbatim>\<open>{filename: "abc123.pptx", slides: [{title: "Intro", ...}]}\<close>.
\<close>

definition mock_fetch :: fetch where
  "mock_fetch r =
     (if url r = ''http://localhost:8000/upload-pdf/''
      then Inr \<lparr>ok = True, statusText = ''OK'',
                json = Inr \<lparr>filename = ''abc123'', data_slides = []\<rparr>\<rparr>
      else Inr \<lparr>ok = True, statusText = ''OK'',
                json = Inr \<lparr>filename = ''abc123.pptx'', data_slides = intro_slides\<rparr>\<rparr>)"

text \<open>Mock networks that fail: at the upload, and at the processing step.\<close>

definition upload_500 :: fetch where
  "upload_500 r =
     Inr \<lparr>ok = False, statusText = ''Internal Server Error'', json = Inl NonError\<rparr>"

definition process_500 :: fetch where
  "process_500 r =
     (if url r = ''http://localhost:8000/upload-pdf/''
      then Inr \<lparr>ok = True, statusText = ''OK'',
                json = Inr \<lparr>filename = ''abc123'', data_slides = []\<rparr>\<rparr>
      else Inr \<lparr>ok = False, statusText = ''Internal Server Error'',
                json = Inl NonError\<rparr>)"


text \<open>A processing step that answers with an empty \<^verbatim>\<open>filename\<close>.\<close>

definition empty_name_fetch :: fetch where
  "empty_name_fetch r =
     (if url r = ''http://localhost:8000/upload-pdf/''
      then Inr \<lparr>ok = True, statusText = ''OK'',
                json = Inr \<lparr>filename = ''abc123'', data_slides = []\<rparr>\<rparr>
      else Inr \<lparr>ok = True, statusText = ''OK'',
                json = Inr \<lparr>filename = [], data_slides = intro_slides\<rparr>\<rparr>)"



text \<open>The session after \<^verbatim>\<open>report.pdf\<close> is selected, and after it is converted.\<close>

definition selected :: state where
  "selected = run initialState (handleFileChange (Some [report_pdf]))"

definition converted :: state where
  "converted = run selected (handleUpload None mock_fetch selected)"

section \<open>Properties of the try block\<close>

lemma tryBlock_shape:
  "(\<exists>e. tryBlock env fetch f = ([Fetch (uploadRequest env f)], Some e)) \<or>
   (\<exists>e fileId. tryBlock env fetch f =
         ([Fetch (uploadRequest env f), SetUploading False, SetProcessing True,
           Fetch (processRequest env fileId)], Some e)) \<or>
   (\<exists>fileId p sl. tryBlock env fetch f =
         ([Fetch (uploadRequest env f), SetUploading False, SetProcessing True,
           Fetch (processRequest env fileId), SetPresentationId p, SetSlides sl,
           SetProcessing False], None))"
  unfolding tryBlock_def Let_def
  by (simp split: sum.splits) blast

lemma tryBlock_cases:
  obtains (upload_failed) e where "tryBlock env fetch f = ([Fetch (uploadRequest env f)], Some e)"
  | (process_failed) e fileId where
      "tryBlock env fetch f =
         ([Fetch (uploadRequest env f), SetUploading False, SetProcessing True,
           Fetch (processRequest env fileId)], Some e)"
  | (succeeded) fileId p sl where
      "tryBlock env fetch f =
         ([Fetch (uploadRequest env f), SetUploading False, SetProcessing True,
           Fetch (processRequest env fileId), SetPresentationId p, SetSlides sl,
           SetProcessing False], None)"
  using tryBlock_shape [of env fetch f] by blast

lemma handleUpload_flags_reset:
  assumes "\<not> uploading s" "\<not> processing s"
  shows "\<not> uploading (run s (handleUpload env fetch s)) \<and>
         \<not> processing (run s (handleUpload env fetch s))"
proof (cases "file s")
  case None
  with assms show ?thesis by (simp add: handleUpload_def)
next
  case (Some f)
  show ?thesis
    by (cases rule: tryBlock_cases [of env fetch f])
       (simp_all add: handleUpload_def Some catchBlock_def)
qed

lemma handleUpload_flags_during:
  assumes "\<not> uploading s" "\<not> processing s"
    and "s' \<in> set (states s (handleUpload env fetch s))"
  shows "\<not> (uploading s' \<and> processing s')"
proof (cases "file s")
  case None
  with assms show ?thesis by (auto simp add: handleUpload_def)
next
  case (Some f)
  from assms show ?thesis
    by (cases rule: tryBlock_cases [of env fetch f])
       (auto simp add: handleUpload_def Some catchBlock_def)
qed

lemma handleFileChange_flags:
  assumes "s' \<in> set (states s (handleFileChange files))"
  shows "uploading s' = uploading s \<and> processing s' = processing s"
  using assms
  by (auto simp add: handleFileChange_def split: option.splits list.splits if_splits)

lemma handleDownload_states:
  assumes "s' \<in> set (states s (handleDownload env s))"
  shows "s' = s"
  using assms
  by (auto simp add: handleDownload_def split: option.splits if_splits)

lemma run_in_states: "run s acts \<in> set (states s acts)"
  by (induction acts arbitrary: s) auto

lemma settled_flags: "settled env s \<Longrightarrow> \<not> uploading s \<and> \<not> processing s"
proof (induction rule: settled.induct)
  case initial
  show ?case by (simp add: initialState_def)
next
  case (after_selectFile s files)
  with handleFileChange_flags [OF run_in_states, of s files] show ?case by simp
next
  case (after_submit s fetch)
  then show ?case using handleUpload_flags_reset by blast
next
  case (after_download s)
  with handleDownload_states [OF run_in_states, of s env] show ?case by simp
qed

lemma visited_flags: "visited env s \<Longrightarrow> \<not> (uploading s \<and> processing s)"
proof (induction rule: visited.induct)
  case (during_selectFile s s' files)
  with settled_flags [of env s] handleFileChange_flags [of s' s files] show ?case by simp
next
  case (during_submit s s' fetch)
  with settled_flags [of env s] show ?case using handleUpload_flags_during by blast
next
  case (during_download s s')
  with settled_flags [of env s] handleDownload_states [of s' s env] show ?case by simp
qed

lemma exactly_one_iff:
  "session_states_held s = 1 \<longleftrightarrow> \<not> (uploading s \<and> processing s)"
  by (auto simp add: session_states_held_def spec_idle_def spec_uploading_def
        spec_processing_def spec_ready_def spec_errored_def)

lemma settled_visited: "settled env s \<Longrightarrow> visited env s"
  using during_download [of env s s] by (cases "handleDownload env s") auto

lemma selected_eq:
  "selected = \<lparr>file = Some report_pdf, uploading = False, processing = False,
                error = None, presentationId = None, slides = []\<rparr>"
  by (simp add: selected_def handleFileChange_def report_pdf_def initialState_def)

lemma converted_eq:
  "converted = \<lparr>file = Some report_pdf, uploading = False, processing = False,
                error = None, presentationId = Some ''abc123.pptx'', slides = intro_slides\<rparr>"
  by (simp add: converted_def selected_eq handleUpload_def tryBlock_def mock_fetch_def
      uploadRequest_def processRequest_def API_URL_def)

lemma tryBlock_success:
  assumes "fetch (uploadRequest env f) = Inr uploadResponse" "ok uploadResponse"
    "json uploadResponse = Inr uploadData"
    "fetch (processRequest env (filename uploadData)) = Inr processResponse"
    "ok processResponse" "json processResponse = Inr processData"
  shows "tryBlock env fetch f =
     ([Fetch (uploadRequest env f), SetUploading False, SetProcessing True,
       Fetch (processRequest env (filename uploadData)),
       SetPresentationId (filename processData), SetSlides (data_slides processData),
       SetProcessing False], None)"
  using assms by (simp add: tryBlock_def)

lemma tryBlock_upload_status:
  assumes "fetch (uploadRequest env f) = Inr uploadResponse" "\<not> ok uploadResponse"
  shows "tryBlock env fetch f =
     ([Fetch (uploadRequest env f)],
      Some (ErrorInstance (''Upload failed: '' @ statusText uploadResponse)))"
  using assms by (simp add: tryBlock_def)

lemma tryBlock_process_status:
  assumes "fetch (uploadRequest env f) = Inr uploadResponse" "ok uploadResponse"
    "json uploadResponse = Inr uploadData"
    "fetch (processRequest env (filename uploadData)) = Inr processResponse"
    "\<not> ok processResponse"
  shows "tryBlock env fetch f =
     ([Fetch (uploadRequest env f), SetUploading False, SetProcessing True,
       Fetch (processRequest env (filename uploadData))],
      Some (ErrorInstance (''Processing failed: '' @ statusText processResponse)))"
  using assms by (simp add: tryBlock_def)

lemma upload_is_not_process: "uploadRequest env f \<noteq> processRequest env fileId"
  by (simp add: uploadRequest_def processRequest_def)

lemma run_take_in_states: "run s (take n acts) \<in> set (states s acts)"
proof (induction acts arbitrary: s n)
  case Nil
  show ?case by simp
next
  case (Cons a acts)
  show ?case
  proof (cases n)
    case 0
    then show ?thesis by simp
  next
    case (Suc m)
    with Cons.IH [of "perform a s" m] show ?thesis by simp
  qed
qed

lemma settled_selected: "settled None selected"
  unfolding selected_def by (rule after_selectFile) (rule initial)

lemma tryBlock_throws_iff:
  "snd (tryBlock env fetch f) = Some err \<longleftrightarrow>
     fetch (uploadRequest env f) = Inl err
   \<or> (\<exists>r. fetch (uploadRequest env f) = Inr r \<and> \<not> ok r
          \<and> err = ErrorInstance (''Upload failed: '' @ statusText r))
   \<or> (\<exists>r. fetch (uploadRequest env f) = Inr r \<and> ok r \<and> json r = Inl err)
   \<or> (\<exists>r d. fetch (uploadRequest env f) = Inr r \<and> ok r \<and> json r = Inr d
          \<and> fetch (processRequest env (filename d)) = Inl err)
   \<or> (\<exists>r d r'. fetch (uploadRequest env f) = Inr r \<and> ok r \<and> json r = Inr d
          \<and> fetch (processRequest env (filename d)) = Inr r' \<and> \<not> ok r'
          \<and> err = ErrorInstance (''Processing failed: '' @ statusText r'))
   \<or> (\<exists>r d r'. fetch (uploadRequest env f) = Inr r \<and> ok r \<and> json r = Inr d
          \<and> fetch (processRequest env (filename d)) = Inr r' \<and> ok r'
          \<and> json r' = Inl err)"
  unfolding tryBlock_def Let_def
  by (auto split: sum.splits)

lemma tryBlock_thrown_calls:
  assumes "snd (tryBlock env fetch f) = Some err"
  shows "filter is_SetPresentationId (fst (tryBlock env fetch f)) = []
       \<and> filter is_SetSlides (fst (tryBlock env fetch f)) = []"
  using assms by (cases rule: tryBlock_cases [of env fetch f]) simp_all


lemma run_keeps_presentation:
  assumes "filter is_SetPresentationId acts = []" "filter is_SetSlides acts = []"
  shows "presentationId (run s acts) = presentationId s \<and> slides (run s acts) = slides s"
  using assms
proof (induction acts arbitrary: s)
  case Nil
  show ?case by simp
next
  case (Cons a acts)
  then show ?case by (cases a) (simp_all split: if_splits)
qed

lemma handleUpload_thrown:
  assumes "file s = Some f" "snd (tryBlock env fetch f) = Some err"
  shows "handleUpload env fetch s =
     [SetUploading True, SetError None] @ fst (tryBlock env fetch f) @ catchBlock err"
  using assms by (cases "tryBlock env fetch f") (simp add: handleUpload_def)


lemma handleFileChange_keeps:
  "presentationId (run s (handleFileChange files)) = presentationId s
   \<and> slides (run s (handleFileChange files)) = slides s
   \<and> uploading (run s (handleFileChange files)) = uploading s
   \<and> processing (run s (handleFileChange files)) = processing s"
  by (simp add: handleFileChange_def split: option.splits list.splits)

lemma run_changes_keeps:
  "presentationId (run_changes s changes) = presentationId s
   \<and> slides (run_changes s changes) = slides s
   \<and> uploading (run_changes s changes) = uploading s
   \<and> processing (run_changes s changes) = processing s"
proof (induction changes arbitrary: s)
  case Nil
  show ?case by simp
next
  case (Cons files rest)
  from Cons.IH [of "run s (handleFileChange files)"] handleFileChange_keeps [of s files]
  show ?case by simp
qed

lemma perform_agrees:
  assumes "presentationId s = presentationId t" "slides s = slides t"
    "uploading s = uploading t" "processing s = processing t"
  shows "presentationId (perform a s) = presentationId (perform a t)
       \<and> slides (perform a s) = slides (perform a t)
       \<and> uploading (perform a s) = uploading (perform a t)
       \<and> processing (perform a s) = processing (perform a t)"
  using assms by (cases a) simp_all

lemma run_interleaved_agrees:
  assumes "presentationId s = presentationId t" "slides s = slides t"
    "uploading s = uploading t" "processing s = processing t"
  shows "presentationId (run_interleaved s calls during) = presentationId (run t calls)
       \<and> slides (run_interleaved s calls during) = slides (run t calls)
       \<and> uploading (run_interleaved s calls during) = uploading (run t calls)
       \<and> processing (run_interleaved s calls during) = processing (run t calls)"
  using assms
proof (induction calls arbitrary: s t during)
  case Nil
  then show ?case by simp
next
  case (Cons a calls)
  note step = perform_agrees [OF Cons.prems, of a]
  show ?case
  proof (cases "is_Fetch a")
    case False
    with Cons.IH [of "perform a s" "perform a t" during] step show ?thesis by simp
  next
    case True
    show ?thesis
    proof (cases during)
      case Nil
      with True Cons.IH [of "perform a s" "perform a t" "[]"] step show ?thesis by simp
    next
      case (Cons changes later)
      with True Cons.IH [of "run_changes (perform a s) changes" "perform a t" later] step
        run_changes_keeps [of "perform a s" changes]
      show ?thesis by simp
    qed
  qed
qed

lemma run_interleaved_undisturbed:
  "concat during = [] \<Longrightarrow> run_interleaved s calls during = run s calls"
proof (induction calls arbitrary: s during)
  case Nil
  show ?case by simp
next
  case (Cons a calls)
  show ?case
  proof (cases during)
    case Nil
    with Cons.IH [of "[]" "perform a s"] Cons.IH [of during "perform a s"] Cons.prems
    show ?thesis by simp
  next
    case (Cons changes later)
    with Cons.prems have "changes = []" "concat later = []" by simp_all
    with Cons Cons.IH [of later "perform a s"] Cons.IH [of during "perform a s"] Cons.prems
    show ?thesis by simp
  qed
qed

section \<open>Properties of the controller\<close>

text \<open>
  C1, as stated, fails when a change event is handled while the submission awaits:
  \<^verbatim>\<open>report.pdf\<close> is submitted, both requests succeed, and while the upload is awaited
  the user picks \<^verbatim>\<open>notes.txt\<close>. The only \<^verbatim>\<open>setError(null)\<close> of \<^verbatim>\<open>handleUpload\<close> is on
  line 41, before the first \<^verbatim>\<open>await\<close>, so the message set by line 26 is still held at
  the end and the session is not ready.
\<close>

theorem successful_conversion_disturbed:
  "file selected = Some report_pdf
   \<and> mock_fetch (uploadRequest None report_pdf)
       = Inr \<lparr>ok = True, statusText = ''OK'',
              json = Inr \<lparr>filename = ''abc123'', data_slides = []\<rparr>\<rparr>
   \<and> mock_fetch (processRequest None ''abc123'')
       = Inr \<lparr>ok = True, statusText = ''OK'',
              json = Inr \<lparr>filename = ''abc123.pptx'', data_slides = intro_slides\<rparr>\<rparr>
   \<and> error (run_interleaved selected (handleUpload None mock_fetch selected)
        [[Some [notes_txt]]]) = Some ''Please select a PDF file''
   \<and> \<not> spec_ready (run_interleaved selected (handleUpload None mock_fetch selected)
        [[Some [notes_txt]]])"
  by (simp add: selected_eq handleUpload_def tryBlock_def mock_fetch_def uploadRequest_def
      processRequest_def API_URL_def handleFileChange_def notes_txt_def spec_ready_def)

text \<open>
  C1, amended. When the upload succeeds with \<^verbatim>\<open>{filename: f}\<close> and the processing step
  succeeds with \<^verbatim>\<open>{filename: p, slides: s}\<close>, \<^verbatim>\<open>handleUpload\<close> calls
  \<^verbatim>\<open>setPresentationId(p)\<close> and \<^verbatim>\<open>setSlides(s)\<close> exactly once each, and the state after the
  run holds \<open>p\<close> and \<open>s\<close> with both flags false, whatever change events are handled
  while it awaits; a download then opens \<^verbatim>\<open>{API_URL}/download/p\<close> (for a non-empty
  \<open>p\<close>, as in the scenario). When no change event is handled during the run, no error
  message is held afterwards and the session is ready.
\<close>

theorem successful_conversion:
  assumes "file s = Some f"
    and "fetch (uploadRequest env f) = Inr uploadResponse" and "ok uploadResponse"
    and "json uploadResponse = Inr uploadData"
    and "fetch (processRequest env (filename uploadData)) = Inr processResponse"
    and "ok processResponse" and "json processResponse = Inr processData"
  shows "filter is_SetPresentationId (handleUpload env fetch s)
           = [SetPresentationId (filename processData)]
       \<and> filter is_SetSlides (handleUpload env fetch s)
           = [SetSlides (data_slides processData)]
       \<and> presentationId (run_interleaved s (handleUpload env fetch s) during)
           = Some (filename processData)
       \<and> slides (run_interleaved s (handleUpload env fetch s) during)
           = data_slides processData
       \<and> \<not> uploading (run_interleaved s (handleUpload env fetch s) during)
       \<and> \<not> processing (run_interleaved s (handleUpload env fetch s) during)
       \<and> (filename processData \<noteq> [] \<longrightarrow>
            handleDownload env (run_interleaved s (handleUpload env fetch s) during)
              = [WindowOpen (API_URL env @ ''/download/'' @ filename processData) ''_blank''])
       \<and> (concat during = [] \<longrightarrow>
            error (run_interleaved s (handleUpload env fetch s) during) = None
            \<and> spec_ready (run_interleaved s (handleUpload env fetch s) during))"
proof -
  let ?calls = "handleUpload env fetch s"
  have calls: "?calls =
     [SetUploading True, SetError None, Fetch (uploadRequest env f), SetUploading False,
      SetProcessing True, Fetch (processRequest env (filename uploadData)),
      SetPresentationId (filename processData), SetSlides (data_slides processData),
      SetProcessing False]"
    using assms(1) tryBlock_success [OF assms(2-7)] by (simp add: handleUpload_def)
  have plain: "presentationId (run s ?calls) = Some (filename processData)
       \<and> slides (run s ?calls) = data_slides processData
       \<and> \<not> uploading (run s ?calls) \<and> \<not> processing (run s ?calls)
       \<and> error (run s ?calls) = None"
    by (simp add: calls)
  have same: "presentationId (run_interleaved s ?calls during) = presentationId (run s ?calls)
       \<and> slides (run_interleaved s ?calls during) = slides (run s ?calls)
       \<and> uploading (run_interleaved s ?calls during) = uploading (run s ?calls)
       \<and> processing (run_interleaved s ?calls during) = processing (run s ?calls)"
    by (rule run_interleaved_agrees) simp_all
  have quiet: "concat during = [] \<longrightarrow> run_interleaved s ?calls during = run s ?calls"
    using run_interleaved_undisturbed [of during s ?calls] by simp
  have once: "filter is_SetPresentationId ?calls = [SetPresentationId (filename processData)]
       \<and> filter is_SetSlides ?calls = [SetSlides (data_slides processData)]"
    by (simp add: calls)
  from plain same quiet once show ?thesis
    by (simp add: spec_ready_def handleDownload_def)
qed

text \<open>
  The scenario of the specification: \<^verbatim>\<open>report.pdf\<close> is selected and submitted, the
  upload answers \<^verbatim>\<open>abc123\<close>, the processing step answers \<^verbatim>\<open>abc123.pptx\<close> with the
  slide "Intro", and no change event is handled meanwhile. The presentation is stored
  also when \<^verbatim>\<open>notes.txt\<close> is picked meanwhile.
\<close>

theorem successful_conversion_scenario:
  "file selected = Some report_pdf
   \<and> mock_fetch (uploadRequest None report_pdf)
       = Inr \<lparr>ok = True, statusText = ''OK'',
              json = Inr \<lparr>filename = ''abc123'', data_slides = []\<rparr>\<rparr>
   \<and> mock_fetch (processRequest None ''abc123'')
       = Inr \<lparr>ok = True, statusText = ''OK'',
              json = Inr \<lparr>filename = ''abc123.pptx'', data_slides = intro_slides\<rparr>\<rparr>
   \<and> spec_ready (run_interleaved selected (handleUpload None mock_fetch selected) [])
   \<and> error (run_interleaved selected (handleUpload None mock_fetch selected) []) = None
   \<and> presentationId (run_interleaved selected (handleUpload None mock_fetch selected) [])
       = Some ''abc123.pptx''
   \<and> slides (run_interleaved selected (handleUpload None mock_fetch selected) [])
       = [\<lparr>title = ''Intro'', content = [''point A'', ''point B'']\<rparr>]
   \<and> handleDownload None (run_interleaved selected (handleUpload None mock_fetch selected) [])
       = [WindowOpen ''http://localhost:8000/download/abc123.pptx'' ''_blank'']
   \<and> presentationId (run_interleaved selected (handleUpload None mock_fetch selected)
        [[Some [notes_txt]]]) = Some ''abc123.pptx''"
proof -
  let ?up = "\<lparr>ok = True, statusText = ''OK'',
              json = Inr \<lparr>filename = ''abc123'', data_slides = []\<rparr>\<rparr>"
  let ?pr = "\<lparr>ok = True, statusText = ''OK'',
              json = Inr \<lparr>filename = ''abc123.pptx'', data_slides = intro_slides\<rparr>\<rparr>"
  have f: "file selected = Some report_pdf" by (simp add: selected_eq)
  have u: "mock_fetch (uploadRequest None report_pdf) = Inr ?up"
    by (simp add: mock_fetch_def uploadRequest_def API_URL_def)
  have p: "mock_fetch (processRequest None (filename \<lparr>filename = ''abc123'', data_slides = []\<rparr>)) = Inr ?pr"
    by (simp add: mock_fetch_def processRequest_def API_URL_def)
  from successful_conversion [where s = selected and f = report_pdf and fetch = mock_fetch
      and env = None and uploadResponse = "?up" and processResponse = "?pr"
      and uploadData = "\<lparr>filename = ''abc123'', data_slides = []\<rparr>"
      and processData = "\<lparr>filename = ''abc123.pptx'', data_slides = intro_slides\<rparr>"
      and during = "[]"]
    successful_conversion [where s = selected and f = report_pdf and fetch = mock_fetch
      and env = None and uploadResponse = "?up" and processResponse = "?pr"
      and uploadData = "\<lparr>filename = ''abc123'', data_slides = []\<rparr>"
      and processData = "\<lparr>filename = ''abc123.pptx'', data_slides = intro_slides\<rparr>"
      and during = "[[Some [notes_txt]]]"]
  show ?thesis using f u p by (simp add: API_URL_def intro_slides_def)
qed

text \<open>
  C2. When the upload answers with a status that is not a success, \<^verbatim>\<open>handleUpload\<close>
  issues the upload request only, never a processing request, and the session ends
  errored with the message \<^verbatim>\<open>Upload failed: <status text>\<close>.
\<close>

theorem failed_upload_stops:
  assumes "file s = Some f"
    and "fetch (uploadRequest env f) = Inr uploadResponse" and "\<not> ok uploadResponse"
  shows "filter is_Fetch (handleUpload env fetch s) = [Fetch (uploadRequest env f)]
       \<and> Fetch (processRequest env fileId) \<notin> set (handleUpload env fetch s)
       \<and> error (run s (handleUpload env fetch s))
           = Some (''Upload failed: '' @ statusText uploadResponse)
       \<and> spec_errored (run s (handleUpload env fetch s))"
  using assms(1) upload_is_not_process [of env f fileId]
    tryBlock_upload_status [where fetch = fetch and env = env and f = f, OF assms(2,3)]
  by (simp add: handleUpload_def catchBlock_def spec_errored_def)

text \<open>The upload answers \<^verbatim>\<open>500 Internal Server Error\<close>.\<close>

theorem failed_upload_stops_500:
  "file selected = Some report_pdf
   \<and> upload_500 (uploadRequest None report_pdf)
       = Inr \<lparr>ok = False, statusText = ''Internal Server Error'', json = Inl NonError\<rparr>
   \<and> filter is_Fetch (handleUpload None upload_500 selected)
       = [Fetch (uploadRequest None report_pdf)]
   \<and> Fetch (processRequest None ''abc123'') \<notin> set (handleUpload None upload_500 selected)
   \<and> error (run selected (handleUpload None upload_500 selected))
       = Some ''Upload failed: Internal Server Error''
   \<and> spec_errored (run selected (handleUpload None upload_500 selected))"
proof -
  have f: "file selected = Some report_pdf" by (simp add: selected_eq)
  have u: "upload_500 (uploadRequest None report_pdf)
       = Inr \<lparr>ok = False, statusText = ''Internal Server Error'', json = Inl NonError\<rparr>"
    by (simp add: upload_500_def)
  from failed_upload_stops [where s = selected and f = report_pdf and fetch = upload_500
      and env = None and fileId = "''abc123''", OF f u]
  show ?thesis using f u by simp
qed

text \<open>
  C3, as stated, fails when a presentation is held from an earlier conversion: the
  processing step of a second submission answers \<^verbatim>\<open>500\<close>, and the session still holds
  \<^verbatim>\<open>abc123.pptx\<close> afterwards.
\<close>

theorem failed_processing_counterexample:
  "file converted = Some report_pdf
   \<and> process_500 (uploadRequest None report_pdf)
       = Inr \<lparr>ok = True, statusText = ''OK'',
              json = Inr \<lparr>filename = ''abc123'', data_slides = []\<rparr>\<rparr>
   \<and> process_500 (processRequest None ''abc123'')
       = Inr \<lparr>ok = False, statusText = ''Internal Server Error'', json = Inl NonError\<rparr>
   \<and> presentationId (run converted (handleUpload None process_500 converted))
       = Some ''abc123.pptx''"
  by (simp add: converted_eq handleUpload_def tryBlock_def process_500_def catchBlock_def
      uploadRequest_def processRequest_def API_URL_def)

text \<open>
  C3, amended. When the upload succeeds and the processing step answers with a status
  that is not a success, the presentation identifier after the run is the one held
  before it (unset when none was held), and the error message is
  \<^verbatim>\<open>Processing failed: <status text>\<close>.
\<close>

theorem failed_processing:
  assumes "file s = Some f"
    and "fetch (uploadRequest env f) = Inr uploadResponse" and "ok uploadResponse"
    and "json uploadResponse = Inr uploadData"
    and "fetch (processRequest env (filename uploadData)) = Inr processResponse"
    and "\<not> ok processResponse"
  shows "presentationId (run s (handleUpload env fetch s)) = presentationId s
       \<and> (presentationId s = None \<longrightarrow> presentationId (run s (handleUpload env fetch s)) = None)
       \<and> error (run s (handleUpload env fetch s))
           = Some (''Processing failed: '' @ statusText processResponse)"
  using assms(1)
    tryBlock_process_status [where fetch = fetch and env = env and f = f, OF assms(2-6)]
  by (simp add: handleUpload_def catchBlock_def)

text \<open>A first submission whose processing step answers \<^verbatim>\<open>500\<close>.\<close>

theorem failed_processing_500:
  "file selected = Some report_pdf
   \<and> process_500 (uploadRequest None report_pdf)
       = Inr \<lparr>ok = True, statusText = ''OK'',
              json = Inr \<lparr>filename = ''abc123'', data_slides = []\<rparr>\<rparr>
   \<and> process_500 (processRequest None ''abc123'')
       = Inr \<lparr>ok = False, statusText = ''Internal Server Error'', json = Inl NonError\<rparr>
   \<and> presentationId selected = None
   \<and> presentationId (run selected (handleUpload None process_500 selected)) = None
   \<and> error (run selected (handleUpload None process_500 selected))
       = Some ''Processing failed: Internal Server Error''"
proof -
  let ?up = "\<lparr>ok = True, statusText = ''OK'',
              json = Inr \<lparr>filename = ''abc123'', data_slides = []\<rparr>\<rparr>"
  let ?pr = "\<lparr>ok = False, statusText = ''Internal Server Error'', json = Inl NonError\<rparr>"
  have f: "file selected = Some report_pdf" by (simp add: selected_eq)
  have n: "presentationId selected = None" by (simp add: selected_eq)
  have u: "process_500 (uploadRequest None report_pdf) = Inr ?up"
    by (simp add: process_500_def uploadRequest_def API_URL_def)
  have p: "process_500 (processRequest None ''abc123'') = Inr ?pr"
    by (simp add: process_500_def processRequest_def API_URL_def)
  from failed_processing [where s = selected and f = report_pdf and fetch = process_500
      and env = None and uploadResponse = "?up" and processResponse = "?pr"
      and uploadData = "\<lparr>filename = ''abc123'', data_slides = []\<rparr>"]
  show ?thesis using f n u p by simp
qed

text \<open>
  C4. When the first selected file has a declared type other than
  \<^verbatim>\<open>application/pdf\<close>, \<^verbatim>\<open>handleFileChange\<close> sets the error message to
  \<^verbatim>\<open>Please select a PDF file\<close>, leaves the stored file, the slides, the presentation
  identifier and both flags as they were, and makes no network call.
\<close>

theorem non_pdf_rejected:
  assumes "files = Some (selectedFile # others)"
    and "type selectedFile \<noteq> ''application/pdf''"
  shows "error (run s (handleFileChange files)) = Some ''Please select a PDF file''
       \<and> file (run s (handleFileChange files)) = file s
       \<and> slides (run s (handleFileChange files)) = slides s
       \<and> presentationId (run s (handleFileChange files)) = presentationId s
       \<and> uploading (run s (handleFileChange files)) = uploading s
       \<and> processing (run s (handleFileChange files)) = processing s
       \<and> filter is_Fetch (handleFileChange files) = []"
  using assms by (simp add: handleFileChange_def)

text \<open>After a conversion of \<^verbatim>\<open>report.pdf\<close>, the user picks \<^verbatim>\<open>notes.txt\<close>.\<close>

theorem non_pdf_rejected_notes_txt:
  "type notes_txt \<noteq> ''application/pdf''
   \<and> error (run converted (handleFileChange (Some [notes_txt])))
       = Some ''Please select a PDF file''
   \<and> file (run converted (handleFileChange (Some [notes_txt]))) = Some report_pdf
   \<and> slides (run converted (handleFileChange (Some [notes_txt]))) = intro_slides
   \<and> presentationId (run converted (handleFileChange (Some [notes_txt])))
       = Some ''abc123.pptx''
   \<and> \<not> uploading (run converted (handleFileChange (Some [notes_txt])))
   \<and> \<not> processing (run converted (handleFileChange (Some [notes_txt])))
   \<and> filter is_Fetch (handleFileChange (Some [notes_txt])) = []"
proof -
  have t: "type notes_txt \<noteq> ''application/pdf''" by (simp add: notes_txt_def)
  from non_pdf_rejected [where files = "Some [notes_txt]" and selectedFile = notes_txt
      and others = "[]" and s = converted, OF _ t]
  show ?thesis using t by (simp add: converted_eq)
qed

text \<open>
  C5. With no file selected, \<^verbatim>\<open>handleUpload\<close> sets the error message to
  \<^verbatim>\<open>Please select a file first\<close>, changes nothing else of the session and issues no
  network request.
\<close>

theorem submit_without_file:
  assumes "file s = None"
  shows "run s (handleUpload env fetch s) = s\<lparr>error := Some ''Please select a file first''\<rparr>
       \<and> filter is_Fetch (handleUpload env fetch s) = []"
  using assms by (simp add: handleUpload_def)

text \<open>A submission in the initial state.\<close>

theorem submit_without_file_initially:
  "file initialState = None
   \<and> run initialState (handleUpload None mock_fetch initialState)
       = initialState\<lparr>error := Some ''Please select a file first''\<rparr>
   \<and> filter is_Fetch (handleUpload None mock_fetch initialState) = []"
proof -
  have n: "file initialState = None" by (simp add: initialState_def)
  from submit_without_file [OF n, of None mock_fetch] n show ?thesis by simp
qed

text \<open>
  C6, as stated, fails when the identifier held is the empty string: the processing
  step answered \<^verbatim>\<open>{filename: ""}\<close>, the session holds that identifier, and
  \<^verbatim>\<open>handleDownload\<close> opens nothing, since \<^verbatim>\<open>if (presentationId)\<close> is false for it.
\<close>

theorem download_empty_identifier:
  "presentationId (run selected (handleUpload None empty_name_fetch selected)) = Some []
   \<and> handleDownload None (run selected (handleUpload None empty_name_fetch selected)) = []
   \<and> handleDownload None (run selected (handleUpload None empty_name_fetch selected))
       \<noteq> [WindowOpen (API_URL None @ ''/download/'' @ []) ''_blank'']"
  by (simp add: selected_eq handleUpload_def tryBlock_def empty_name_fetch_def
      handleDownload_def uploadRequest_def processRequest_def API_URL_def)

text \<open>
  C6, amended. \<^verbatim>\<open>handleDownload\<close> opens nothing when no presentation identifier is
  held; when a non-empty identifier \<open>pid\<close> is held it opens
  \<^verbatim>\<open>{API_URL}/download/{pid}\<close> with target \<^verbatim>\<open>_blank\<close>; when the identifier held is the
  empty string it opens nothing. It never changes the session state.
\<close>

theorem download_opens_presentation:
  "(presentationId s = None \<longrightarrow>
      handleDownload env s = [] \<and> run s (handleDownload env s) = s)
   \<and> (presentationId s = Some pid \<and> pid \<noteq> [] \<longrightarrow>
      handleDownload env s = [WindowOpen (API_URL env @ ''/download/'' @ pid) ''_blank'']
      \<and> run s (handleDownload env s) = s)
   \<and> (presentationId s = Some [] \<longrightarrow>
      handleDownload env s = [] \<and> run s (handleDownload env s) = s)"
  by (simp add: handleDownload_def)

text \<open>A download in the initial state, after a conversion, and with an empty identifier.\<close>

theorem download_opens_presentation_abc123:
  "presentationId initialState = None
   \<and> handleDownload None initialState = []
   \<and> run initialState (handleDownload None initialState) = initialState
   \<and> presentationId converted = Some ''abc123.pptx''
   \<and> handleDownload None converted
       = [WindowOpen ''http://localhost:8000/download/abc123.pptx'' ''_blank'']
   \<and> run converted (handleDownload None converted) = converted
   \<and> presentationId (converted\<lparr>presentationId := Some []\<rparr>) = Some []
   \<and> handleDownload None (converted\<lparr>presentationId := Some []\<rparr>) = []"
proof -
  have n: "presentationId initialState = None" by (simp add: initialState_def)
  have p: "presentationId converted = Some ''abc123.pptx''" by (simp add: converted_eq)
  from download_opens_presentation [where s = initialState and env = None
      and pid = "''abc123.pptx''"]
    download_opens_presentation [where s = converted and env = None
      and pid = "''abc123.pptx''"]
    download_opens_presentation [where s = "converted\<lparr>presentationId := Some []\<rparr>"
      and env = None and pid = "''abc123.pptx''"]
  show ?thesis using n p by (simp add: API_URL_def)
qed



text \<open>
  C8. In every state the session passes through, in any sequence of file selections,
  submissions (whatever the network does) and downloads, the session is in exactly
  one of the five session states; the uploading and the processing flag are never
  both true.
\<close>

theorem session_in_exactly_one_state:
  "visited env s \<Longrightarrow> session_states_held s = 1 \<and> \<not> (uploading s \<and> processing s)"
  using visited_flags [of env s] exactly_one_iff [of s] by simp

text \<open>
  The state in the middle of a conversion, after \<^verbatim>\<open>setProcessing(true)\<close>: it is
  visited, and it is in the processing state only.
\<close>

theorem session_in_exactly_one_state_in_flight:
  "visited None (run selected (take 5 (handleUpload None mock_fetch selected)))
   \<and> processing (run selected (take 5 (handleUpload None mock_fetch selected)))
   \<and> session_states_held (run selected (take 5 (handleUpload None mock_fetch selected))) = 1
   \<and> \<not> (uploading (run selected (take 5 (handleUpload None mock_fetch selected)))
        \<and> processing (run selected (take 5 (handleUpload None mock_fetch selected))))"
proof -
  let ?s = "run selected (take 5 (handleUpload None mock_fetch selected))"
  have v: "visited None ?s"
    by (rule during_submit [OF settled_selected run_take_in_states])
  have p: "processing ?s"
    by (simp add: selected_eq handleUpload_def tryBlock_def mock_fetch_def
        uploadRequest_def processRequest_def API_URL_def)
  from session_in_exactly_one_state [OF v] v p show ?thesis by simp
qed

text \<open>
  C9. When the first selected file has the declared type \<^verbatim>\<open>application/pdf\<close>,
  \<^verbatim>\<open>handleFileChange\<close> stores it and sets the error message to \<^verbatim>\<open>null\<close>.
\<close>

theorem pdf_accepted:
  assumes "files = Some (selectedFile # others)"
    and "type selectedFile = ''application/pdf''"
  shows "file (run s (handleFileChange files)) = Some selectedFile
       \<and> error (run s (handleFileChange files)) = None"
  using assms by (simp add: handleFileChange_def)

text \<open>\<^verbatim>\<open>report.pdf\<close> is selected after \<^verbatim>\<open>notes.txt\<close> was rejected.\<close>

theorem pdf_accepted_after_error:
  "type report_pdf = ''application/pdf''
   \<and> error (run initialState (handleFileChange (Some [notes_txt])))
       = Some ''Please select a PDF file''
   \<and> file (run (run initialState (handleFileChange (Some [notes_txt])))
        (handleFileChange (Some [report_pdf]))) = Some report_pdf
   \<and> error (run (run initialState (handleFileChange (Some [notes_txt])))
        (handleFileChange (Some [report_pdf]))) = None"
proof -
  have t: "type report_pdf = ''application/pdf''" by (simp add: report_pdf_def)
  have e: "error (run initialState (handleFileChange (Some [notes_txt])))
       = Some ''Please select a PDF file''"
    by (simp add: handleFileChange_def notes_txt_def)
  from pdf_accepted [where files = "Some [report_pdf]" and selectedFile = report_pdf
      and others = "[]" and s = "run initialState (handleFileChange (Some [notes_txt]))", OF _ t]
  show ?thesis using t e by simp
qed

text \<open>
  C10. A submission that fails, at the upload or at the processing step, leaves the
  slides and the presentation identifier as they were, and a download afterwards
  does what it did before.
\<close>

theorem failed_submit_keeps_presentation:
  assumes "file s = Some f" and "snd (tryBlock env fetch f) = Some err"
  shows "slides (run s (handleUpload env fetch s)) = slides s
       \<and> presentationId (run s (handleUpload env fetch s)) = presentationId s
       \<and> handleDownload env (run s (handleUpload env fetch s)) = handleDownload env s"
proof -
  let ?calls = "handleUpload env fetch s"
  have "filter is_SetPresentationId ?calls = [] \<and> filter is_SetSlides ?calls = []"
    using handleUpload_thrown [OF assms] tryBlock_thrown_calls [OF assms(2)]
    by (simp add: catchBlock_def)
  then have "presentationId (run s ?calls) = presentationId s \<and> slides (run s ?calls) = slides s"
    using run_keeps_presentation [of ?calls s] by simp
  then show ?thesis by (simp add: handleDownload_def)
qed

text \<open>After a conversion, a second submission fails at the upload, or at the processing step.\<close>

theorem failed_submit_keeps_presentation_abc123:
  "file converted = Some report_pdf
   \<and> snd (tryBlock None upload_500 report_pdf)
       = Some (ErrorInstance ''Upload failed: Internal Server Error'')
   \<and> snd (tryBlock None process_500 report_pdf)
       = Some (ErrorInstance ''Processing failed: Internal Server Error'')
   \<and> slides (run converted (handleUpload None upload_500 converted)) = intro_slides
   \<and> presentationId (run converted (handleUpload None upload_500 converted))
       = Some ''abc123.pptx''
   \<and> handleDownload None (run converted (handleUpload None upload_500 converted))
       = [WindowOpen ''http://localhost:8000/download/abc123.pptx'' ''_blank'']
   \<and> slides (run converted (handleUpload None process_500 converted)) = intro_slides
   \<and> presentationId (run converted (handleUpload None process_500 converted))
       = Some ''abc123.pptx''
   \<and> handleDownload None (run converted (handleUpload None process_500 converted))
       = [WindowOpen ''http://localhost:8000/download/abc123.pptx'' ''_blank'']"
proof -
  have f: "file converted = Some report_pdf" by (simp add: converted_eq)
  have a: "snd (tryBlock None upload_500 report_pdf)
       = Some (ErrorInstance ''Upload failed: Internal Server Error'')"
    by (simp add: tryBlock_def upload_500_def)
  have b: "snd (tryBlock None process_500 report_pdf)
       = Some (ErrorInstance ''Processing failed: Internal Server Error'')"
    by (simp add: tryBlock_def process_500_def uploadRequest_def processRequest_def API_URL_def)
  have d: "handleDownload None converted
       = [WindowOpen ''http://localhost:8000/download/abc123.pptx'' ''_blank'']"
    by (simp add: converted_eq handleDownload_def API_URL_def)
  from failed_submit_keeps_presentation [OF f a] failed_submit_keeps_presentation [OF f b]
  show ?thesis using f a b d by (simp add: converted_eq)
qed

end
